theory Spec2Isabelle
  imports Complex_Main "HOL-Library.AList" "HOL-Library.Sublist"
begin

section \<open>Values of the report documents\<close>

text \<open>
  The application of \<^verbatim>\<open>src/App.jsx\<close> keeps its reports as schemaless documents of an
  external document store. A document value is one of the store's field values. An object
  is the list of its own properties in enumeration order (\<^verbatim>\<open>Object.entries\<close> reads the
  list as it is). The JavaScript value \<^verbatim>\<open>undefined\<close> is not a field value: it appears
  only as the result of a property read, as \<open>None\<close> of \<open>jval option\<close>.

  A JavaScript string is a sequence of UTF-16 code units; a \<open>char\<close> of the model holds a
  code unit below 256, which covers every string literal of the source (the accented
  letters of its Spanish labels are written \<open>CHR 0xE1\<close>, \<open>CHR 0xE9\<close>, \<open>CHR 0xED\<close>,
  \<open>CHR 0xF3\<close>).
\<close>

datatype jval =
    JNull
  | JBool bool
  | JNum int
  | JStr string
  | JTimestamp int int
  | JArr "jval list"
  | JObj "(string \<times> jval) list"

datatype js_error = TypeError | InvalidArgument | NotFound | Unavailable

text \<open>How a call completes: it returns a value (\<open>None\<close> is \<^verbatim>\<open>undefined\<close>; for an
  \<^verbatim>\<open>async\<close> function the value its promise resolves to) or throws.\<close>

datatype completion = Returned "jval option" | Threw js_error

definition bindE :: "'e + 'a \<Rightarrow> ('a \<Rightarrow> 'e + 'b) \<Rightarrow> 'e + 'b" where
  "bindE m f = (case m of Inl e \<Rightarrow> Inl e | Inr x \<Rightarrow> f x)"

fun mapE :: "('a \<Rightarrow> 'e + 'b) \<Rightarrow> 'a list \<Rightarrow> 'e + 'b list" where
  "mapE f [] = Inr []"
| "mapE f (x # xs) = bindE (f x) (\<lambda>r. bindE (mapE f xs) (\<lambda>rs. Inr (r # rs)))"

subsection \<open>Truthiness, string conversion, property reads\<close>

text \<open>\<^verbatim>\<open>!v\<close> for a field value: the empty string, \<^verbatim>\<open>0\<close>, \<^verbatim>\<open>false\<close> and \<^verbatim>\<open>null\<close>
  are falsy.\<close>

fun truthy :: "jval \<Rightarrow> bool" where
  "truthy JNull = False"
| "truthy (JBool b) = b"
| "truthy (JNum n) = (n \<noteq> 0)"
| "truthy (JStr s) = (s \<noteq> [])"
| "truthy (JTimestamp s n) = True"
| "truthy (JArr xs) = True"
| "truthy (JObj kvs) = True"

text \<open>A state variable that is \<^verbatim>\<open>null\<close> or a string (\<^verbatim>\<open>userId\<close>, \<^verbatim>\<open>reportId\<close>).\<close>

fun truthy_id :: "string option \<Rightarrow> bool" where
  "truthy_id None = False"
| "truthy_id (Some s) = (s \<noteq> [])"

definition digit :: "nat \<Rightarrow> char" where
  "digit n = ''0123456789'' ! n"

function string_of_nat :: "nat \<Rightarrow> string" where
  "string_of_nat n =
     (if n < 10 then [digit n] else string_of_nat (n div 10) @ [digit (n mod 10)])"
  by pat_completeness auto
termination
  by (relation "measure (\<lambda>n. n)") auto

declare string_of_nat.simps [simp del]

definition string_of_int :: "int \<Rightarrow> string" where
  "string_of_int i = (if i < 0 then ''-'' @ string_of_nat (nat (- i)) else string_of_nat (nat i))"

fun join :: "string \<Rightarrow> string list \<Rightarrow> string" where
  "join sep [] = []"
| "join sep [s] = s"
| "join sep (s # t # ss) = s @ sep @ join sep (t # ss)"

text \<open>\<^verbatim>\<open>String(v)\<close>, as a template literal \<^verbatim>\<open>`${v}`\<close> converts a value. An array is
  its elements joined by commas, \<^verbatim>\<open>null\<close> elements as the empty string.\<close>

fun toString :: "jval \<Rightarrow> string" where
  "toString JNull = ''null''"
| "toString (JBool b) = (if b then ''true'' else ''false'')"
| "toString (JNum n) = string_of_int n"
| "toString (JStr s) = s"
| "toString (JTimestamp s n) =
     ''Timestamp(seconds='' @ string_of_int s @ '', nanoseconds='' @ string_of_int n @ '')''"
| "toString (JArr xs) = join '','' (map (\<lambda>x. if x = JNull then [] else toString x) xs)"
| "toString (JObj kvs) = ''[object Object]''"

definition template :: "jval option \<Rightarrow> string" where
  "template v = (case v of None \<Rightarrow> ''undefined'' | Some x \<Rightarrow> toString x)"

text \<open>\<^verbatim>\<open>xs.join(sep)\<close> on the elements of an array.\<close>

definition array_join :: "string \<Rightarrow> jval list \<Rightarrow> string" where
  "array_join sep xs = join sep (map (\<lambda>x. if x = JNull then [] else toString x) xs)"

text \<open>The property read \<^verbatim>\<open>v.k\<close>. On \<^verbatim>\<open>undefined\<close> and \<^verbatim>\<open>null\<close> it throws; on an
  object it is the property or \<^verbatim>\<open>undefined\<close>; on a timestamp the two fields it carries.
  For the other values it is \<^verbatim>\<open>undefined\<close>, which is exact for the names this
  program reads (none of them is a built-in property of a string, number, boolean or
  array).\<close>

fun read_prop :: "jval option \<Rightarrow> string \<Rightarrow> js_error + jval option" where
  "read_prop None k = Inl TypeError"
| "read_prop (Some JNull) k = Inl TypeError"
| "read_prop (Some (JObj kvs)) k = Inr (map_of kvs k)"
| "read_prop (Some (JTimestamp s n)) k =
     Inr (if k = ''seconds'' then Some (JNum s)
          else if k = ''nanoseconds'' then Some (JNum n) else None)"
| "read_prop (Some v) k = Inr None"

text \<open>The optional read \<^verbatim>\<open>v?.k\<close>.\<close>

definition read_opt :: "jval option \<Rightarrow> string \<Rightarrow> jval option" where
  "read_opt v k =
     (case v of None \<Rightarrow> None | Some JNull \<Rightarrow> None
      | Some x \<Rightarrow> (case read_prop (Some x) k of Inl e \<Rightarrow> None | Inr r \<Rightarrow> r))"

text \<open>\<^verbatim>\<open>Object.entries(v)\<close>: the own enumerable properties, in order; the indices of an
  array or of a string; nothing for a number or a boolean.\<close>

fun indexed :: "nat \<Rightarrow> 'a list \<Rightarrow> (string \<times> 'a) list" where
  "indexed i [] = []"
| "indexed i (x # xs) = (string_of_nat i, x) # indexed (Suc i) xs"

fun entries :: "jval option \<Rightarrow> js_error + (string \<times> jval) list" where
  "entries None = Inl TypeError"
| "entries (Some JNull) = Inl TypeError"
| "entries (Some (JObj kvs)) = Inr kvs"
| "entries (Some (JArr xs)) = Inr (indexed 0 xs)"
| "entries (Some (JStr s)) = Inr (indexed 0 (map (\<lambda>c. JStr [c]) s))"
| "entries (Some (JTimestamp s n)) = Inr [(''seconds'', JNum s), (''nanoseconds'', JNum n)]"
| "entries (Some v) = Inr []"

text \<open>The elements of \<^verbatim>\<open>v\<close> when \<^verbatim>\<open>v.map\<close>, \<^verbatim>\<open>v.forEach\<close> or \<^verbatim>\<open>v.join\<close> is called:
  only an array has these methods.\<close>

fun elements :: "jval option \<Rightarrow> js_error + jval list" where
  "elements (Some (JArr xs)) = Inr xs"
| "elements v = Inl TypeError"

text \<open>The object literal \<^verbatim>\<open>{ id: i, ...data }\<close>: the properties of \<open>data\<close> are copied
  over the first ones; a property already there keeps its place and takes the copied
  value, the others follow in the order of \<open>data\<close>.\<close>

definition spread :: "(string \<times> jval) list \<Rightarrow> (string \<times> jval) list \<Rightarrow> (string \<times> jval) list" where
  "spread base kvs =
     map (\<lambda>(k, v). (k, case map_of kvs k of Some v' \<Rightarrow> v' | None \<Rightarrow> v)) base
     @ filter (\<lambda>(k, v). k \<notin> set (map fst base)) kvs"

section \<open>The document store\<close>

text \<open>
  The store is an external collaborator (Firestore), reached through \<^verbatim>\<open>addDoc\<close>,
  \<^verbatim>\<open>updateDoc\<close>, \<^verbatim>\<open>deleteDoc\<close> and \<^verbatim>\<open>onSnapshot\<close>; its code is not part of the
  repository. A document is the list of its fields. Document references are taken to be
  well formed (no \<^verbatim>\<open>/\<close> inside \<^verbatim>\<open>appId\<close> or an identifier).
\<close>

type_synonym document = "(string \<times> jval) list"

text \<open>Modelled from the spec: the state of the document store (spec section 6), missing
  from the sources: its documents by path, whether the backend accepts writes (a rejected
  write is what makes the \<^verbatim>\<open>await\<close> of a handler throw), and its clock.\<close>

record firestore =
  docs :: "string \<rightharpoonup> document"
  accepting :: bool
  clock_seconds :: int
  clock_nanos :: int

text \<open>\<^verbatim>\<open>s.split(c)\<close>.\<close>

primrec split_on :: "char \<Rightarrow> string \<Rightarrow> string list" where
  "split_on c [] = [[]]"
| "split_on c (x # xs) =
     (if x = c then [] # split_on c xs
      else (case split_on c xs of [] \<Rightarrow> [[x]] | s # ss \<Rightarrow> (x # s) # ss))"

text \<open>Modelled from the spec: the store's check of a field path given as a string
  (update-field(path, value) of spec section 6), missing from the sources: none of the
  characters \<^verbatim>\<open>~ * / [ ]\<close>, and no empty segment between the dots.\<close>

definition valid_field_path :: "string \<Rightarrow> bool" where
  "valid_field_path p =
     (list_all (\<lambda>c. c \<notin> set ''~*/[]'') p \<and> list_all (\<lambda>s. s \<noteq> []) (split_on CHR ''.'' p))"

text \<open>Modelled from the spec: what update-field(path, value) does to a document (spec
  sections 4.2 and 6), missing from the sources: the field at the path takes the value,
  inside nested maps for a dotted path; a map is created where the path finds none, and
  the other fields are not touched.\<close>

fun set_field :: "string list \<Rightarrow> jval \<Rightarrow> document \<Rightarrow> document" where
  "set_field [] v d = d"
| "set_field [k] v d = AList.update k v d"
| "set_field (k # ks) v d =
     AList.update k
       (JObj (set_field ks v (case map_of d k of Some (JObj sub) \<Rightarrow> sub | _ \<Rightarrow> []))) d"

text \<open>The field at a path of a document: the lookup through nested maps.\<close>

fun get_field :: "string list \<Rightarrow> document \<Rightarrow> jval option" where
  "get_field [] d = None"
| "get_field [k] d = map_of d k"
| "get_field (k # ks) d =
     (case map_of d k of Some (JObj sub) \<Rightarrow> get_field ks sub | _ \<Rightarrow> None)"

text \<open>Modelled from the spec: \<^verbatim>\<open>serverTimestamp()\<close> (the creation timestamp "set once by
  the persistence layer", spec section 3), missing from the sources: a placeholder that
  the store replaces by its own clock when it commits the write.\<close>

definition serverTimestamp :: "firestore \<Rightarrow> jval" where
  "serverTimestamp st = JTimestamp (clock_seconds st) (clock_nanos st)"

text \<open>Modelled from the spec: create-document (spec section 6), missing from the sources,
  called as \<^verbatim>\<open>addDoc(collection(db, path), data)\<close>: the document is stored under an
  identifier \<open>autoId\<close> that the store's client generates, and the reference returned
  carries this identifier.\<close>

definition addDoc :: "firestore \<Rightarrow> string \<Rightarrow> string \<Rightarrow> document \<Rightarrow> js_error + (string \<times> firestore)" where
  "addDoc st coll autoId data =
     (if accepting st
      then Inr (autoId, st\<lparr>docs := (docs st)(coll @ ''/'' @ autoId \<mapsto> data)\<rparr>)
      else Inl Unavailable)"

text \<open>Modelled from the spec: update-field(path, value) (spec section 6), missing from the
  sources, called as \<^verbatim>\<open>updateDoc(doc(db, path), { [field]: value })\<close>: it needs a valid
  field path, a backend that accepts the write, and an existing document.\<close>

definition updateDoc :: "firestore \<Rightarrow> string \<Rightarrow> string \<Rightarrow> jval \<Rightarrow> js_error + firestore" where
  "updateDoc st path field v =
     (if \<not> valid_field_path field then Inl InvalidArgument
      else if \<not> accepting st then Inl Unavailable
      else (case docs st path of
              None \<Rightarrow> Inl NotFound
            | Some d \<Rightarrow>
                Inr (st\<lparr>docs := (docs st)(path \<mapsto> set_field (split_on CHR ''.'' field) v d)\<rparr>)))"

text \<open>Modelled from the spec: delete-document (spec section 6), missing from the sources,
  called as \<^verbatim>\<open>deleteDoc(doc(db, path))\<close>.\<close>

definition deleteDoc :: "firestore \<Rightarrow> string \<Rightarrow> js_error + firestore" where
  "deleteDoc st path =
     (if accepting st then Inr (st\<lparr>docs := (docs st)(path := None)\<rparr>) else Inl Unavailable)"

section \<open>The application state\<close>

text \<open>
  The state variables of the components \<^verbatim>\<open>App\<close>, \<^verbatim>\<open>Dashboard\<close> and \<^verbatim>\<open>Workspace\<close>
  (the props of \<^verbatim>\<open>Workspace\<close> are \<^verbatim>\<open>App\<close>'s \<^verbatim>\<open>db\<close>, \<^verbatim>\<open>activeReport\<close> and
  \<^verbatim>\<open>activeReportId\<close>), the store behind the handle \<^verbatim>\<open>db\<close>, and what was written with
  \<^verbatim>\<open>console.error\<close>: the message and the error logged with it.
\<close>

datatype screen = Dashboard | Workspace

datatype firestore_handle = FirestoreHandle

record world =
  db :: "firestore_handle option"
  userId :: "string option"
  appId :: string
  view :: screen
  activeReport :: "jval option"
  activeReportId :: "string option"
  modalOpen :: bool
  reportToDelete :: "string option"
  activeDiscipline :: jval
  store :: firestore
  console :: "(string \<times> js_error option) list"

definition reportsCollectionPath :: "string \<Rightarrow> string" where
  "reportsCollectionPath app = ''artifacts/'' @ app @ ''/public/data/8d-reports''"

definition reportDocPath :: "string \<Rightarrow> string \<Rightarrow> string" where
  "reportDocPath app rid = ''artifacts/'' @ app @ ''/public/data/8d-reports/'' @ rid"

section \<open>Creating, selecting and deleting reports\<close>

text \<open>\<^verbatim>\<open>`Nuevo Informe 8D - ${new Date().toLocaleDateString()}`\<close>; the locale's rendering
  of the current date is the parameter \<open>today\<close>.\<close>

definition newReportTitle :: "string \<Rightarrow> string" where
  "newReportTitle today = ''Nuevo Informe 8D - '' @ today"

text \<open>The object literal that \<^verbatim>\<open>handleCreateNewReport\<close> hands to \<^verbatim>\<open>addDoc\<close>.\<close>

definition newReport :: "string \<Rightarrow> string \<Rightarrow> jval \<Rightarrow> document" where
  "newReport title uid createdAt =
     [(''title'', JStr title),
      (''createdBy'', JStr uid),
      (''createdAt'', createdAt),
      (''currentDiscipline'', JStr ''D1''),
      (''d1_team'',
         JArr [JObj [(''name'', JStr (''Usuario '' @ take 6 uid)),
                     (''role'', JStr (''L'' @ [CHR 0xED] @ ''der''))]]),
      (''d2_problem'',
         JObj [(''what'', JStr []), (''where'', JStr []), (''when'', JStr []),
               (''who'', JStr []), (''why'', JStr []), (''how'', JStr []),
               (''how_many'', JStr [])]),
      (''d3_containment'',
         JArr [JObj [(''action'', JStr []), (''responsible'', JStr []), (''date'', JStr []),
                     (''verified'', JBool False)]]),
      (''d4_root_cause'',
         JObj [(''five_whys'', JArr [JStr []]),
               (''fishbone'',
                  JObj [(''Manpower'', JArr []), (''Machine'', JArr []), (''Method'', JArr []),
                        (''Material'', JArr []), (''Measurement'', JArr []),
                        (''Environment'', JArr [])])]),
      (''d5_corrective_actions'',
         JArr [JObj [(''action'', JStr []), (''responsible'', JStr []), (''date'', JStr []),
                     (''verified'', JBool False)]]),
      (''d6_implementation'', JObj [(''summary'', JStr []), (''validation_results'', JStr [])]),
      (''d7_prevention'', JObj [(''updated_docs'', JStr []), (''new_standards'', JStr [])]),
      (''d8_recognition'', JObj [(''summary'', JStr []), (''celebration_date'', JStr [])])]"

text \<open>\<^verbatim>\<open>handleCreateNewReport\<close>. \<open>today\<close> and \<open>autoId\<close> are what the environment
  supplies: the date string and the identifier of the new document.\<close>

definition handleCreateNewReport :: "string \<Rightarrow> string \<Rightarrow> world \<Rightarrow> completion \<times> world" where
  "handleCreateNewReport today autoId w =
     (case (db w, userId w) of
        (Some h, Some uid) \<Rightarrow>
          if uid = [] then (Returned None, w)
          else (case addDoc (store w) (reportsCollectionPath (appId w)) autoId
                       (newReport (newReportTitle today) uid (serverTimestamp (store w))) of
                  Inr (rid, st') \<Rightarrow>
                    (Returned None, w\<lparr>store := st', activeReportId := Some rid, view := Workspace\<rparr>)
                | Inl e \<Rightarrow>
                    (Returned None,
                     w\<lparr>console := console w @ [(''Error creating new report: '', Some e)]\<rparr>))
      | _ \<Rightarrow> (Returned None, w))"

definition handleSelectReport :: "string \<Rightarrow> world \<Rightarrow> world" where
  "handleSelectReport rid w = w\<lparr>activeReportId := Some rid, view := Workspace\<rparr>"

definition handleDeleteReport :: "string \<Rightarrow> world \<Rightarrow> completion \<times> world" where
  "handleDeleteReport rid w =
     (case db w of
        None \<Rightarrow> (Returned None, w)
      | Some h \<Rightarrow>
          (case deleteDoc (store w) (reportDocPath (appId w) rid) of
             Inr st' \<Rightarrow> (Returned None, w\<lparr>store := st'\<rparr>)
           | Inl e \<Rightarrow>
               (Returned None, w\<lparr>console := console w @ [(''Error deleting report:'', Some e)]\<rparr>)))"

definition handleGoToDashboard :: "world \<Rightarrow> world" where
  "handleGoToDashboard w = w\<lparr>view := Dashboard, activeReportId := None, activeReport := None\<rparr>"

text \<open>The effect of \<^verbatim>\<open>App\<close> that subscribes to the active report, with the snapshot the
  subscription delivers.\<close>

definition activeReportEffect :: "world \<Rightarrow> world" where
  "activeReportEffect w =
     (case (view w, db w, activeReportId w) of
        (Workspace, Some h, Some rid) \<Rightarrow>
          if rid = [] then w\<lparr>activeReport := None\<rparr>
          else (case docs (store w) (reportDocPath (appId w) rid) of
                  Some d \<Rightarrow> w\<lparr>activeReport := Some (JObj (spread [(''id'', JStr rid)] d))\<rparr>
                | None \<Rightarrow> w\<lparr>console := console w @ [(''Report not found'', None)], view := Dashboard\<rparr>)
      | _ \<Rightarrow> w\<lparr>activeReport := None\<rparr>)"

subsection \<open>The dashboard's delete button\<close>

record click_event =
  propagationStopped :: bool

definition openDeleteModal :: "click_event \<Rightarrow> string \<Rightarrow> world \<Rightarrow> click_event \<times> world" where
  "openDeleteModal e rid w =
     (e\<lparr>propagationStopped := True\<rparr>, w\<lparr>reportToDelete := Some rid, modalOpen := True\<rparr>)"

definition confirmDelete :: "world \<Rightarrow> world" where
  "confirmDelete w =
     (let w1 = (case reportToDelete w of
                  Some rid \<Rightarrow> if rid = [] then w else snd (handleDeleteReport rid w)
                | None \<Rightarrow> w)
      in w1\<lparr>modalOpen := False, reportToDelete := None\<rparr>)"

text \<open>A click on the delete button of a report's card: the button's handler runs first,
  and the click bubbles to the card's own handler (\<^verbatim>\<open>onSelectReport\<close>) unless its
  propagation was stopped.\<close>

definition clickDeleteButton :: "string \<Rightarrow> world \<Rightarrow> world" where
  "clickDeleteButton rid w =
     (case openDeleteModal \<lparr>propagationStopped = False\<rparr> rid w of
        (e, w1) \<Rightarrow> if propagationStopped e then w1 else handleSelectReport rid w1)"

section \<open>The workspace: updates and navigation\<close>

definition handleUpdate :: "string \<Rightarrow> jval \<Rightarrow> world \<Rightarrow> completion \<times> world" where
  "handleUpdate field v w =
     (case (db w, activeReportId w) of
        (Some h, Some rid) \<Rightarrow>
          if rid = [] then (Returned None, w)
          else (case updateDoc (store w) (reportDocPath (appId w) rid) field v of
                  Inr st' \<Rightarrow> (Returned None, w\<lparr>store := st'\<rparr>)
                | Inl e \<Rightarrow>
                    (Returned None,
                     w\<lparr>console := console w @ [(''Error updating document: '', Some e)]\<rparr>))
      | _ \<Rightarrow> (Returned None, w))"

definition handleDeepUpdate :: "string \<Rightarrow> jval \<Rightarrow> world \<Rightarrow> completion \<times> world" where
  "handleDeepUpdate path v w =
     (case (db w, activeReportId w) of
        (Some h, Some rid) \<Rightarrow>
          if rid = [] then (Returned None, w)
          else (case updateDoc (store w) (reportDocPath (appId w) rid) path v of
                  Inr st' \<Rightarrow> (Returned None, w\<lparr>store := st'\<rparr>)
                | Inl e \<Rightarrow>
                    (Returned None,
                     w\<lparr>console := console w @ [(''Error performing deep update:'', Some e)]\<rparr>))
      | _ \<Rightarrow> (Returned None, w))"

definition disciplines :: "(string \<times> string) list" where
  "disciplines =
     [(''D1'', ''Formar el Equipo''),
      (''D2'', ''Describir el Problema''),
      (''D3'', ''Acciones de Contenci'' @ [CHR 0xF3] @ ''n''),
      (''D4'', ''An'' @ [CHR 0xE1] @ ''lisis de Causa Ra'' @ [CHR 0xED] @ ''z''),
      (''D5'', ''Acciones Correctivas''),
      (''D6'', ''Implementar y Validar''),
      (''D7'', ''Prevenir Recurrencia''),
      (''D8'', ''Reconocer al Equipo'')]"

text \<open>\<^verbatim>\<open>DisciplineNav.handleSelect\<close>: \<^verbatim>\<open>setActive(id); onUpdate(id)\<close>, where
  \<^verbatim>\<open>onUpdate\<close> is \<^verbatim>\<open>(val) => handleUpdate('currentDiscipline', val)\<close>.\<close>

definition handleSelect :: "string \<Rightarrow> world \<Rightarrow> world" where
  "handleSelect d w =
     snd (handleUpdate ''currentDiscipline'' (JStr d) (w\<lparr>activeDiscipline := JStr d\<rparr>))"

text \<open>The effect of \<^verbatim>\<open>Workspace\<close> on its report, and the mount of the component:
  \<^verbatim>\<open>useState('D1')\<close> followed by the effect.\<close>

definition workspaceEffect :: "world \<Rightarrow> world" where
  "workspaceEffect w =
     (case read_opt (activeReport w) ''currentDiscipline'' of
        Some v \<Rightarrow> if truthy v then w\<lparr>activeDiscipline := v\<rparr> else w
      | None \<Rightarrow> w)"

definition mountWorkspace :: "world \<Rightarrow> world" where
  "mountWorkspace w = workspaceEffect (w\<lparr>activeDiscipline := JStr ''D1''\<rparr>)"

text \<open>Opening a report from the dashboard: the card's handler, the subscription's first
  snapshot, and the mount of the workspace.\<close>

definition openReport :: "string \<Rightarrow> world \<Rightarrow> world" where
  "openReport rid w = mountWorkspace (activeReportEffect (handleSelectReport rid w))"

section \<open>Export\<close>

text \<open>
  \<^verbatim>\<open>generatePdf\<close> drives an external renderer (jsPDF with its table plug-in). The model
  records the calls made on the renderer's document, in order, and keeps the cursor
  \<^verbatim>\<open>y\<close> beside them. What the renderer measures is a parameter: how it splits a text to
  a width, and where the table drawn last ends.
\<close>

datatype text_content = Str "jval option" | Lines "string list"

datatype pdf_call =
    SetFontSize nat
  | SetFont string
  | PdfText text_content rat rat bool
  | AutoTable rat "string list" "jval option list list"
  | AddPage
  | Save string

record renderer =
  splitTextToSize :: "string \<Rightarrow> rat \<Rightarrow> string list"
  finalY :: "pdf_call list \<Rightarrow> rat"

type_synonym pdf = "pdf_call list \<times> rat"

text \<open>\<^verbatim>\<open>doc.text(s, x, y)\<close> and \<^verbatim>\<open>doc.text(s, x, y, { align: 'center' })\<close>.\<close>

definition docText :: "text_content \<Rightarrow> rat \<Rightarrow> bool \<Rightarrow> pdf \<Rightarrow> pdf" where
  "docText t x centred p = (case p of (cs, y) \<Rightarrow> (cs @ [PdfText t x y centred], y))"

definition pageBreak :: "pdf \<Rightarrow> pdf" where
  "pageBreak p = (case p of (cs, y) \<Rightarrow> if y > 250 then (cs @ [AddPage], 20) else (cs, y))"

definition advance :: "rat \<Rightarrow> pdf \<Rightarrow> pdf" where
  "advance dy p = (case p of (cs, y) \<Rightarrow> (cs, y + dy))"

definition call :: "pdf_call \<Rightarrow> pdf \<Rightarrow> pdf" where
  "call c p = (case p of (cs, y) \<Rightarrow> (cs @ [c], y))"

definition addSection :: "string \<Rightarrow> pdf \<Rightarrow> pdf" where
  "addSection title p =
     (let p1 = pageBreak p;
          p2 = call (SetFont ''bold'') (call (SetFontSize 14) p1);
          p3 = docText (Str (Some (JStr title))) 14 False p2;
          p4 = advance 7 p3
      in call (SetFontSize 11) (call (SetFont ''normal'') p4))"

text \<open>\<^verbatim>\<open>doc.autoTable({ startY: y, head: [head], body: body, theme: 'grid' })\<close> followed by
  \<^verbatim>\<open>y = doc.autoTable.previous.finalY + 10\<close>.\<close>

definition autoTable :: "renderer \<Rightarrow> string list \<Rightarrow> jval option list list \<Rightarrow> pdf \<Rightarrow> pdf" where
  "autoTable R head body p =
     (case p of (cs, y) \<Rightarrow> (cs @ [AutoTable y head body], finalY R (cs @ [AutoTable y head body]) + 10))"

definition sectionD1 :: "renderer \<Rightarrow> jval \<Rightarrow> pdf \<Rightarrow> js_error + pdf" where
  "sectionD1 R report p =
     bindE (read_prop (Some report) ''d1_team'') (\<lambda>d1_team.
     bindE (elements d1_team) (\<lambda>members.
     bindE (mapE (\<lambda>m. bindE (read_prop (Some m) ''name'') (\<lambda>name.
                       bindE (read_prop (Some m) ''role'') (\<lambda>role. Inr [name, role]))) members)
       (\<lambda>body. Inr (autoTable R [''Nombre'', ''Rol''] body (addSection ''D1: Formar el Equipo'' p)))))"

definition sectionD2 :: "renderer \<Rightarrow> jval \<Rightarrow> pdf \<Rightarrow> js_error + pdf" where
  "sectionD2 R report p =
     bindE (read_prop (Some report) ''d2_problem'') (\<lambda>d2_problem.
     bindE (entries d2_problem) (\<lambda>kvs.
       Inr (autoTable R [''Pregunta'', ''Descripci'' @ [CHR 0xF3] @ ''n'']
              (map (\<lambda>(key, v). [Some (JStr key), Some v]) kvs)
              (addSection ''D2: Describir el Problema (5W2H)'' p))))"

definition sectionD3 :: "renderer \<Rightarrow> jval \<Rightarrow> pdf \<Rightarrow> js_error + pdf" where
  "sectionD3 R report p =
     bindE (read_prop (Some report) ''d3_containment'') (\<lambda>d3_containment.
     bindE (elements d3_containment) (\<lambda>actions.
     bindE (mapE (\<lambda>a. bindE (read_prop (Some a) ''action'') (\<lambda>action.
                       bindE (read_prop (Some a) ''responsible'') (\<lambda>responsible.
                       bindE (read_prop (Some a) ''date'') (\<lambda>date.
                         Inr [action, responsible, date])))) actions)
       (\<lambda>body. Inr (autoTable R [''Acci'' @ [CHR 0xF3] @ ''n'', ''Responsable'', ''Fecha''] body
                       (addSection (''D3: Acciones de Contenci'' @ [CHR 0xF3] @ ''n'') p)))))"

text \<open>The loop \<^verbatim>\<open>five_whys.forEach((why, i) => ...)\<close>.\<close>

fun whysLoop :: "renderer \<Rightarrow> nat \<Rightarrow> jval list \<Rightarrow> pdf \<Rightarrow> pdf" where
  "whysLoop R i [] p = p"
| "whysLoop R i (why # whys) p =
     (let splitWhy = splitTextToSize R (string_of_nat (i + 1) @ ''. '' @ toString why) 180
      in whysLoop R (i + 1) whys
           (advance (of_nat (length splitWhy) * 5 + 2) (docText (Lines splitWhy) 16 False p)))"

definition fishboneHead :: "string list" where
  "fishboneHead = [''Categor'' @ [CHR 0xED] @ ''a'', ''Causas Potenciales'']"

definition sectionD4 :: "renderer \<Rightarrow> jval \<Rightarrow> pdf \<Rightarrow> js_error + pdf" where
  "sectionD4 R report p =
     bindE (read_prop (Some report) ''d4_root_cause'') (\<lambda>d4_root_cause.
     bindE (read_prop d4_root_cause ''five_whys'') (\<lambda>five_whys.
     bindE (elements five_whys) (\<lambda>whys.
     bindE (read_prop d4_root_cause ''fishbone'') (\<lambda>fishbone.
     bindE (entries fishbone) (\<lambda>kvs.
     bindE (mapE (\<lambda>(category, causes). bindE (elements (Some causes)) (\<lambda>cs.
                    Inr [Some (JStr category), Some (JStr (array_join [CHR 0x0A] cs))])) kvs)
       (\<lambda>fishbone_body.
          (let p1 = addSection (''D4: An'' @ [CHR 0xE1] @ ''lisis de Causa Ra'' @ [CHR 0xED] @ ''z'') p;
               p2 = call (SetFont ''bold'') p1;
               p3 = docText (Str (Some (JStr (''5 Porqu'' @ [CHR 0xE9] @ ''s:'')))) 14 False p2;
               p4 = call (SetFont ''normal'') (advance 7 p3);
               p5 = whysLoop R 0 whys p4;
               p6 = advance 5 (pageBreak p5);
               p7 = call (SetFont ''bold'') p6;
               p8 = docText (Str (Some (JStr ''Diagrama de Ishikawa:''))) 14 False p7;
               p9 = call (SetFont ''normal'') (advance 7 p8)
           in Inr (autoTable R fishboneHead fishbone_body p9))))))))"

definition generatePdf :: "renderer \<Rightarrow> jval \<Rightarrow> js_error + pdf_call list" where
  "generatePdf R report =
     bindE (read_prop (Some report) ''title'') (\<lambda>title.
     bindE (sectionD1 R report
              ([SetFontSize 22, PdfText (Str (Some (JStr ''Informe 8D''))) 105 20 True,
                SetFontSize 16, PdfText (Str title) 105 30 True], 45)) (\<lambda>p1.
     bindE (sectionD2 R report p1) (\<lambda>p2.
     bindE (sectionD3 R report p2) (\<lambda>p3.
     bindE (sectionD4 R report p3) (\<lambda>p4.
     bindE (read_prop (Some report) ''id'') (\<lambda>rid.
       Inr (fst (call (Save (''Informe_8D_'' @ template rid @ ''.pdf'')) p4))))))))"

text \<open>What a sequence of calls shows: the texts drawn at a column, and the bodies of the
  tables with a given head.\<close>

fun textsAt :: "rat \<Rightarrow> pdf_call list \<Rightarrow> text_content list" where
  "textsAt x [] = []"
| "textsAt x (PdfText t x' y c # cs) = (if x' = x then t # textsAt x cs else textsAt x cs)"
| "textsAt x (c # cs) = textsAt x cs"

fun tablesWithHead :: "string list \<Rightarrow> pdf_call list \<Rightarrow> jval option list list list" where
  "tablesWithHead h [] = []"
| "tablesWithHead h (AutoTable y h' body # cs) =
     (if h' = h then body # tablesWithHead h cs else tablesWithHead h cs)"
| "tablesWithHead h (c # cs) = tablesWithHead h cs"

text \<open>A report that \<^verbatim>\<open>generatePdf\<close> can read through: the sequences it maps over are
  arrays without \<^verbatim>\<open>null\<close> members, the mappings it enumerates are objects, and the
  causes of every fishbone category are an array.\<close>

definition is_array :: "jval \<Rightarrow> bool" where
  "is_array v = (case v of JArr xs \<Rightarrow> True | _ \<Rightarrow> False)"

definition array_of :: "jval option \<Rightarrow> jval list option" where
  "array_of v = (case v of Some (JArr xs) \<Rightarrow> Some xs | _ \<Rightarrow> None)"

definition object_of :: "jval option \<Rightarrow> (string \<times> jval) list option" where
  "object_of v = (case v of Some (JObj kvs) \<Rightarrow> Some kvs | _ \<Rightarrow> None)"

definition exportable :: "jval \<Rightarrow> bool" where
  "exportable report =
     (case object_of (Some report) of
        None \<Rightarrow> False
      | Some flds \<Rightarrow>
          (case array_of (map_of flds ''d1_team'') of
             None \<Rightarrow> False | Some ms \<Rightarrow> list_all (\<lambda>m. m \<noteq> JNull) ms) \<and>
          object_of (map_of flds ''d2_problem'') \<noteq> None \<and>
          (case array_of (map_of flds ''d3_containment'') of
             None \<Rightarrow> False | Some as \<Rightarrow> list_all (\<lambda>a. a \<noteq> JNull) as) \<and>
          (case object_of (map_of flds ''d4_root_cause'') of
             None \<Rightarrow> False
           | Some d4 \<Rightarrow>
               array_of (map_of d4 ''five_whys'') \<noteq> None \<and>
               (case object_of (map_of d4 ''fishbone'') of
                  None \<Rightarrow> False | Some fb \<Rightarrow> list_all (\<lambda>kv. is_array (snd kv)) fb)))"

section \<open>Sample inputs\<close>

definition sampleStore :: firestore where
  "sampleStore =
     \<lparr>docs = [reportDocPath ''app'' ''r1'' \<mapsto> newReport (newReportTitle ''1/11/2026'') ''user0123'' (JTimestamp 0 0)],
      accepting = True, clock_seconds = 1, clock_nanos = 0\<rparr>"

text \<open>The dashboard of a signed-in user, and the workspace open on the report \<open>r1\<close>.\<close>

definition sampleDashboard :: world where
  "sampleDashboard =
     \<lparr>db = Some FirestoreHandle, userId = Some ''user0123'', appId = ''app'', view = Dashboard,
      activeReport = None, activeReportId = None, modalOpen = False, reportToDelete = None,
      activeDiscipline = JStr ''D1'', store = sampleStore, console = []\<rparr>"

definition sampleWorkspace :: world where
  "sampleWorkspace = openReport ''r1'' sampleDashboard"


text \<open>The report object of the workspace for a document whose root-cause section holds
  the given \<open>five_whys\<close> and \<open>fishbone\<close>.\<close>

definition sampleReport :: "jval \<Rightarrow> jval \<Rightarrow> jval" where
  "sampleReport whys fb =
     JObj (spread [(''id'', JStr ''r1'')]
             (set_field [''d4_root_cause''] (JObj [(''five_whys'', whys), (''fishbone'', fb)])
                (newReport (newReportTitle ''1/11/2026'') ''user0123'' (JTimestamp 0 0))))"

definition threeWhys :: jval where
  "threeWhys = JArr [JStr ''no calibration'', JStr ''sensor drift'', JStr ''no maintenance schedule'']"


definition wornBearing :: jval where
  "wornBearing =
     JObj [(''Manpower'', JArr []), (''Machine'', JArr [JStr ''worn bearing'']), (''Method'', JArr []),
           (''Material'', JArr []), (''Measurement'', JArr []), (''Environment'', JArr [])]"

text \<open>The same mapping with its keys in another enumeration order (the alphabetical
  one).\<close>

definition wornBearingSorted :: jval where
  "wornBearingSorted =
     JObj [(''Environment'', JArr []), (''Machine'', JArr [JStr ''worn bearing'']),
           (''Manpower'', JArr []), (''Material'', JArr []), (''Measurement'', JArr []),
           (''Method'', JArr [])]"

text \<open>A dashboard over a store whose only document, \<open>r0\<close>, has no \<open>currentDiscipline\<close>.\<close>

definition sampleLegacy :: world where
  "sampleLegacy =
     sampleDashboard\<lparr>store :=
       sampleStore\<lparr>docs := [reportDocPath ''app'' ''r0'' \<mapsto> [(''title'', JStr ''legacy'')]]\<rparr>\<rparr>"

definition plainRenderer :: renderer where
  "plainRenderer = \<lparr>splitTextToSize = (\<lambda>s width. [s]), finalY = (\<lambda>cs. 60)\<rparr>"

section \<open>Observations\<close>

text \<open>The document that a creation leaves in the store under the new identifier, and
  its title.\<close>

definition createdReport :: "string \<Rightarrow> string \<Rightarrow> world \<Rightarrow> document option" where
  "createdReport today autoId w =
     docs (store (snd (handleCreateNewReport today autoId w))) (reportDocPath (appId w) autoId)"

definition createdTitle :: "string \<Rightarrow> string \<Rightarrow> world \<Rightarrow> jval option" where
  "createdTitle today autoId w =
     (case createdReport today autoId w of None \<Rightarrow> None | Some d \<Rightarrow> map_of d ''title'')"

text \<open>The field at a path of the stored document of a report.\<close>

definition storedField :: "string \<Rightarrow> string list \<Rightarrow> world \<Rightarrow> jval option" where
  "storedField rid ks w =
     (case docs (store w) (reportDocPath (appId w) rid) of None \<Rightarrow> None | Some d \<Rightarrow> get_field ks d)"

text \<open>The field at a path of a report object, and the calls of an export (none when the
  export throws).\<close>

definition reportField :: "string list \<Rightarrow> jval \<Rightarrow> jval option" where
  "reportField ks report = (case report of JObj flds \<Rightarrow> get_field ks flds | _ \<Rightarrow> None)"

definition exportedCalls :: "renderer \<Rightarrow> jval \<Rightarrow> pdf_call list" where
  "exportedCalls R report = (case generatePdf R report of Inr cs \<Rightarrow> cs | Inl e \<Rightarrow> [])"

section \<open>Properties\<close>

subsection \<open>Field paths\<close>

lemma split_on_nonempty: "split_on c s \<noteq> []"
  by (induction s) (auto split: list.splits)

lemma get_field_empty [simp]: "get_field q [] = None"
  by (induction q "[] :: document" rule: get_field.induct) simp_all

lemma get_set_same: "ks \<noteq> [] \<Longrightarrow> get_field ks (set_field ks v d) = Some v"
proof (induction ks v d rule: set_field.induct)
  case (1 v d)
  then show ?case by simp
next
  case (2 k v d)
  then show ?case by (simp add: update_conv')
next
  case (3 k k' ks v d)
  then show ?case by (simp add: update_conv')
qed

lemma get_set_other:
  "\<not> prefix q ks \<Longrightarrow> \<not> prefix ks q \<Longrightarrow> get_field q (set_field ks v d) = get_field q d"
proof (induction ks v d arbitrary: q rule: set_field.induct)
  case (1 v d)
  then show ?case by simp
next
  case (2 k v d)
  then show ?case
  proof (cases q)
    case Nil
    with 2 show ?thesis by simp
  next
    case (Cons a q')
    with 2 show ?thesis by (cases q') (auto simp: update_conv')
  qed
next
  case (3 k k' ks v d)
  show ?case
  proof (cases q)
    case Nil
    with "3.prems" show ?thesis by simp
  next
    case (Cons a q')
    show ?thesis
    proof (cases q')
      case Nil
      with Cons "3.prems" show ?thesis by (auto simp: update_conv')
    next
      case (Cons b bs)
      with \<open>q = a # q'\<close> "3.prems" "3.IH" [of q'] show ?thesis
        by (auto simp: update_conv' split: option.splits jval.splits)
    qed
  qed
qed

lemma valid_where: "valid_field_path ''d2_problem.where''"
  by (simp add: valid_field_path_def)

lemma split_where: "split_on CHR ''.'' ''d2_problem.where'' = [''d2_problem'', ''where'']"
  by simp

lemma valid_currentDiscipline: "valid_field_path ''currentDiscipline''"
  by (simp add: valid_field_path_def)

lemma split_currentDiscipline: "split_on CHR ''.'' ''currentDiscipline'' = [''currentDiscipline'']"
  by simp

lemma map_of_spread_id: "k \<noteq> ''id'' \<Longrightarrow> map_of (spread [(''id'', x)] kvs) k = map_of kvs k"
  by (induction kvs) (auto simp: spread_def)

subsection \<open>The sample inputs\<close>

lemma sampleStore_simps:
  "accepting sampleStore"
  "docs sampleStore (reportDocPath ''app'' ''r1'') =
     Some (newReport (newReportTitle ''1/11/2026'') ''user0123'' (JTimestamp 0 0))"
  by (simp_all add: sampleStore_def)

lemma sampleDashboard_simps:
  "db sampleDashboard = Some FirestoreHandle" "userId sampleDashboard = Some ''user0123''"
  "accepting (store sampleDashboard)" "appId sampleDashboard = ''app''"
  "view sampleDashboard = Dashboard" "activeReportId sampleDashboard = None"
  "console sampleDashboard = []"
  by (simp_all add: sampleDashboard_def sampleStore_def)

lemma sampleWorkspace_simps:
  "db sampleWorkspace = Some FirestoreHandle" "activeReportId sampleWorkspace = Some ''r1''"
  "appId sampleWorkspace = ''app''" "store sampleWorkspace = sampleStore"
  "console sampleWorkspace = []" "view sampleWorkspace = Workspace"
  "activeDiscipline sampleWorkspace = JStr ''D1''"
  by (simp_all add: sampleWorkspace_def openReport_def mountWorkspace_def workspaceEffect_def
      activeReportEffect_def handleSelectReport_def sampleDashboard_def sampleStore_def
      reportDocPath_def read_opt_def spread_def newReport_def split: option.splits)

subsection \<open>What the handlers do when the store accepts the write\<close>

lemma create_accepted:
  assumes "db w = Some h" and "userId w = Some uid" and "uid \<noteq> []" and "accepting (store w)"
  shows "handleCreateNewReport today autoId w =
           (Returned None,
            w\<lparr>store := (store w)\<lparr>docs := (docs (store w))(reportDocPath (appId w) autoId \<mapsto>
                 newReport (newReportTitle today) uid (serverTimestamp (store w)))\<rparr>,
              activeReportId := Some autoId, view := Workspace\<rparr>)"
proof -
  have "reportsCollectionPath (appId w) @ ''/'' @ autoId = reportDocPath (appId w) autoId"
    by (simp add: reportsCollectionPath_def reportDocPath_def)
  with assms show ?thesis
    by (simp add: handleCreateNewReport_def addDoc_def)
qed

lemma update_accepted:
  assumes "db w = Some h" and "activeReportId w = Some rid" and "rid \<noteq> []"
    and "accepting (store w)" and "docs (store w) (reportDocPath (appId w) rid) = Some doc"
    and "valid_field_path path"
  shows "handleDeepUpdate path v w =
           (Returned None,
            w\<lparr>store := (store w)\<lparr>docs := (docs (store w))(reportDocPath (appId w) rid \<mapsto>
                 set_field (split_on CHR ''.'' path) v doc)\<rparr>\<rparr>)"
    and "handleUpdate path v w =
           (Returned None,
            w\<lparr>store := (store w)\<lparr>docs := (docs (store w))(reportDocPath (appId w) rid \<mapsto>
                 set_field (split_on CHR ''.'' path) v doc)\<rparr>\<rparr>)"
  using assms by (simp_all add: handleDeepUpdate_def handleUpdate_def updateDoc_def)

subsection \<open>Creating a report\<close>

text \<open>
  C1. Every successful creation (storage handle present, identity present and not empty,
  write accepted) leaves under the new identifier a document with exactly the fields
  below: the eight discipline fields in their default shapes (\<open>d2_problem\<close> with its
  seven keys, each the empty string; \<open>five_whys\<close> a sequence holding one empty string;
  \<open>fishbone\<close> with its six categories, each an empty sequence) and
  \<open>currentDiscipline\<close> equal to \<open>D1\<close>.
\<close>

theorem create_yields_default_skeleton:
  assumes "db w \<noteq> None" and "userId w = Some uid" and "uid \<noteq> []" and "accepting (store w)"
  shows "createdReport today autoId w = Some
     [(''title'', JStr (''Nuevo Informe 8D - '' @ today)),
      (''createdBy'', JStr uid),
      (''createdAt'', serverTimestamp (store w)),
      (''currentDiscipline'', JStr ''D1''),
      (''d1_team'',
         JArr [JObj [(''name'', JStr (''Usuario '' @ take 6 uid)),
                     (''role'', JStr (''L'' @ [CHR 0xED] @ ''der''))]]),
      (''d2_problem'',
         JObj [(''what'', JStr []), (''where'', JStr []), (''when'', JStr []),
               (''who'', JStr []), (''why'', JStr []), (''how'', JStr []),
               (''how_many'', JStr [])]),
      (''d3_containment'',
         JArr [JObj [(''action'', JStr []), (''responsible'', JStr []), (''date'', JStr []),
                     (''verified'', JBool False)]]),
      (''d4_root_cause'',
         JObj [(''five_whys'', JArr [JStr []]),
               (''fishbone'',
                  JObj [(''Manpower'', JArr []), (''Machine'', JArr []), (''Method'', JArr []),
                        (''Material'', JArr []), (''Measurement'', JArr []),
                        (''Environment'', JArr [])])]),
      (''d5_corrective_actions'',
         JArr [JObj [(''action'', JStr []), (''responsible'', JStr []), (''date'', JStr []),
                     (''verified'', JBool False)]]),
      (''d6_implementation'', JObj [(''summary'', JStr []), (''validation_results'', JStr [])]),
      (''d7_prevention'', JObj [(''updated_docs'', JStr []), (''new_standards'', JStr [])]),
      (''d8_recognition'', JObj [(''summary'', JStr []), (''celebration_date'', JStr [])])]"
proof -
  from assms(1) obtain h where "db w = Some h" by auto
  from create_accepted [OF this assms(2,3,4)] show ?thesis
    by (simp add: createdReport_def newReport_def newReportTitle_def)
qed

theorem create_yields_default_skeleton_witness:
  "map_option (map fst) (createdReport ''1/11/2026'' ''r2'' sampleDashboard) = Some
     [''title'', ''createdBy'', ''createdAt'', ''currentDiscipline'', ''d1_team'', ''d2_problem'',
      ''d3_containment'', ''d4_root_cause'', ''d5_corrective_actions'', ''d6_implementation'',
      ''d7_prevention'', ''d8_recognition'']"
proof -
  have "db sampleDashboard \<noteq> None" "userId sampleDashboard = Some ''user0123''"
    "''user0123'' \<noteq> []" "accepting (store sampleDashboard)"
    by (simp_all add: sampleDashboard_simps)
  from create_yields_default_skeleton [OF this, of "''1/11/2026''" "''r2''"]
  show ?thesis by simp
qed

text \<open>
  C8, as amended. When the storage handle or the identity is missing (\<^verbatim>\<open>null\<close>, or the
  empty string for the identity), creating returns normally and changes nothing: no
  write, no change of screen. When the store rejects the write, the call still returns
  normally and the only change of the state is one more entry on the console, the
  message \<^verbatim>\<open>Error creating new report: \<close> with the error thrown: the store, the screen
  and the active report stay as they were. When the store accepts it, the store's create
  call returns the new identifier, and the handler itself makes this report the active
  one and switches to the workspace; the handler returns \<^verbatim>\<open>undefined\<close>.
\<close>

theorem create_fails_silently_or_opens_workspace:
  "(db w = None \<or> \<not> truthy_id (userId w) \<longrightarrow>
      handleCreateNewReport today autoId w = (Returned None, w))
   \<and> (db w \<noteq> None \<and> truthy_id (userId w) \<and> \<not> accepting (store w) \<longrightarrow>
        handleCreateNewReport today autoId w =
          (Returned None,
           w\<lparr>console := console w @ [(''Error creating new report: '', Some Unavailable)]\<rparr>)
        \<and> fst (handleCreateNewReport today autoId w) = Returned None
        \<and> store (snd (handleCreateNewReport today autoId w)) = store w
        \<and> view (snd (handleCreateNewReport today autoId w)) = view w
        \<and> activeReportId (snd (handleCreateNewReport today autoId w)) = activeReportId w)
   \<and> (db w \<noteq> None \<and> userId w = Some uid \<and> uid \<noteq> [] \<and> accepting (store w) \<longrightarrow>
        (\<exists>st'. addDoc (store w) (reportsCollectionPath (appId w)) autoId
                  (newReport (newReportTitle today) uid (serverTimestamp (store w)))
                = Inr (autoId, st')
             \<and> handleCreateNewReport today autoId w =
                 (Returned None, w\<lparr>store := st', activeReportId := Some autoId, view := Workspace\<rparr>))
        \<and> createdReport today autoId w \<noteq> None)"
proof (intro conjI impI)
  assume "db w = None \<or> \<not> truthy_id (userId w)"
  then show "handleCreateNewReport today autoId w = (Returned None, w)"
    by (auto simp: handleCreateNewReport_def split: option.splits)
next
  assume a: "db w \<noteq> None \<and> truthy_id (userId w) \<and> \<not> accepting (store w)"
  then show r: "handleCreateNewReport today autoId w =
      (Returned None, w\<lparr>console := console w @ [(''Error creating new report: '', Some Unavailable)]\<rparr>)"
    by (auto simp: handleCreateNewReport_def addDoc_def split: option.splits)
  show "fst (handleCreateNewReport today autoId w) = Returned None" by (simp add: r)
  show "store (snd (handleCreateNewReport today autoId w)) = store w" by (simp add: r)
  show "view (snd (handleCreateNewReport today autoId w)) = view w" by (simp add: r)
  show "activeReportId (snd (handleCreateNewReport today autoId w)) = activeReportId w"
    by (simp add: r)
next
  assume a: "db w \<noteq> None \<and> userId w = Some uid \<and> uid \<noteq> [] \<and> accepting (store w)"
  then show "\<exists>st'. addDoc (store w) (reportsCollectionPath (appId w)) autoId
                  (newReport (newReportTitle today) uid (serverTimestamp (store w)))
                = Inr (autoId, st')
             \<and> handleCreateNewReport today autoId w =
                 (Returned None, w\<lparr>store := st', activeReportId := Some autoId, view := Workspace\<rparr>)"
    by (auto simp: handleCreateNewReport_def addDoc_def)
next
  assume a: "db w \<noteq> None \<and> userId w = Some uid \<and> uid \<noteq> [] \<and> accepting (store w)"
  then obtain h where "db w = Some h" by auto
  from create_accepted [OF this] a show "createdReport today autoId w \<noteq> None"
    by (simp add: createdReport_def)
qed

theorem create_fails_silently_or_opens_workspace_witness:
  "handleCreateNewReport ''1/11/2026'' ''r2'' (sampleDashboard\<lparr>userId := None\<rparr>)
     = (Returned None, sampleDashboard\<lparr>userId := None\<rparr>)
   \<and> handleCreateNewReport ''1/11/2026'' ''r2''
        (sampleDashboard\<lparr>store := sampleStore\<lparr>accepting := False\<rparr>\<rparr>)
     = (Returned None,
        sampleDashboard\<lparr>store := sampleStore\<lparr>accepting := False\<rparr>,
                        console := [(''Error creating new report: '', Some Unavailable)]\<rparr>)
   \<and> activeReportId (snd (handleCreateNewReport ''1/11/2026'' ''r2'' sampleDashboard)) = Some ''r2''
   \<and> view (snd (handleCreateNewReport ''1/11/2026'' ''r2'' sampleDashboard)) = Workspace"
proof -
  have "handleCreateNewReport ''1/11/2026'' ''r2'' (sampleDashboard\<lparr>userId := None\<rparr>)
     = (Returned None, sampleDashboard\<lparr>userId := None\<rparr>)"
    using create_fails_silently_or_opens_workspace
      [of "sampleDashboard\<lparr>userId := None\<rparr>" "''1/11/2026''" "''r2''" "''user0123''"]
    by simp
  moreover have "handleCreateNewReport ''1/11/2026'' ''r2''
        (sampleDashboard\<lparr>store := sampleStore\<lparr>accepting := False\<rparr>\<rparr>)
     = (Returned None,
        sampleDashboard\<lparr>store := sampleStore\<lparr>accepting := False\<rparr>,
                        console := [(''Error creating new report: '', Some Unavailable)]\<rparr>)"
    using create_fails_silently_or_opens_workspace
      [of "sampleDashboard\<lparr>store := sampleStore\<lparr>accepting := False\<rparr>\<rparr>"
          "''1/11/2026''" "''r2''" "''user0123''"]
    by (simp add: sampleDashboard_simps)
  moreover have "\<exists>st'. handleCreateNewReport ''1/11/2026'' ''r2'' sampleDashboard =
       (Returned None, sampleDashboard\<lparr>store := st', activeReportId := Some ''r2'', view := Workspace\<rparr>)"
    using create_fails_silently_or_opens_workspace
      [of sampleDashboard "''1/11/2026''" "''r2''" "''user0123''"]
    by (auto simp add: sampleDashboard_simps)
  ultimately show ?thesis by auto
qed

text \<open>A successful creation on the sample dashboard: the document is stored and the
  workspace opens on it, and the value returned is \<^verbatim>\<open>undefined\<close>, not the identifier.\<close>

theorem create_returns_identifier_counterexample:
  "fst (handleCreateNewReport ''1/11/2026'' ''r2'' sampleDashboard) = Returned None
   \<and> fst (handleCreateNewReport ''1/11/2026'' ''r2'' sampleDashboard) \<noteq> Returned (Some (JStr ''r2''))
   \<and> createdReport ''1/11/2026'' ''r2'' sampleDashboard \<noteq> None
   \<and> activeReportId (snd (handleCreateNewReport ''1/11/2026'' ''r2'' sampleDashboard)) = Some ''r2''
   \<and> view (snd (handleCreateNewReport ''1/11/2026'' ''r2'' sampleDashboard)) = Workspace"
  by (simp add: createdReport_def handleCreateNewReport_def sampleDashboard_simps addDoc_def
      reportsCollectionPath_def reportDocPath_def)

text \<open>
  C9, as amended. Every successful creation gives the new report the title
  \<^verbatim>\<open>Nuevo Informe 8D - \<close> followed by the locale's rendering of the current date.
\<close>

theorem default_title_is_nuevo_informe:
  assumes "db w \<noteq> None" and "userId w = Some uid" and "uid \<noteq> []" and "accepting (store w)"
  shows "createdTitle today autoId w = Some (JStr (''Nuevo Informe 8D - '' @ today))"
proof -
  from assms(1) obtain h where "db w = Some h" by auto
  from create_accepted [OF this assms(2,3,4)] show ?thesis
    by (simp add: createdTitle_def createdReport_def newReport_def newReportTitle_def)
qed

theorem default_title_is_nuevo_informe_witness:
  "createdTitle ''31/12/2025'' ''r3'' sampleDashboard = Some (JStr ''Nuevo Informe 8D - 31/12/2025'')"
proof -
  have "db sampleDashboard \<noteq> None" "userId sampleDashboard = Some ''user0123''"
    "''user0123'' \<noteq> []" "accepting (store sampleDashboard)"
    by (simp_all add: sampleDashboard_simps)
  from default_title_is_nuevo_informe [OF this, of "''31/12/2025''" "''r3''"]
  show ?thesis by simp
qed

text \<open>The title created on the sample dashboard does not begin with \<^verbatim>\<open>New Report\<close>.\<close>

theorem default_title_counterexample:
  "createdTitle ''1/11/2026'' ''r2'' sampleDashboard = Some (JStr ''Nuevo Informe 8D - 1/11/2026'')
   \<and> \<not> prefix ''New Report'' ''Nuevo Informe 8D - 1/11/2026''"
  by (simp add: createdTitle_def createdReport_def handleCreateNewReport_def sampleDashboard_simps
      addDoc_def reportsCollectionPath_def reportDocPath_def newReport_def newReportTitle_def)

subsection \<open>Updating a field\<close>

text \<open>
  C2. When the workspace has its storage handle and a report identifier, the report's
  document exists, the store accepts the write and the field path is valid, a deep
  update leaves the addressed field equal to the new value, leaves the field at every
  path that neither leads to the addressed one nor lies below it as it was (its siblings
  among them), leaves every other document as it was, and changes nothing of the
  application state but the store.
\<close>

theorem deep_update_changes_only_addressed_field:
  assumes "db w \<noteq> None" and "activeReportId w = Some rid" and "rid \<noteq> []"
    and "accepting (store w)" and "docs (store w) (reportDocPath (appId w) rid) \<noteq> None"
    and "valid_field_path path"
  shows "fst (handleDeepUpdate path v w) = Returned None
     \<and> storedField rid (split_on CHR ''.'' path) (snd (handleDeepUpdate path v w)) = Some v
     \<and> (\<forall>q. \<not> prefix q (split_on CHR ''.'' path) \<and> \<not> prefix (split_on CHR ''.'' path) q \<longrightarrow>
            storedField rid q (snd (handleDeepUpdate path v w)) = storedField rid q w)
     \<and> (\<forall>p. p \<noteq> reportDocPath (appId w) rid \<longrightarrow>
            docs (store (snd (handleDeepUpdate path v w))) p = docs (store w) p)
     \<and> (snd (handleDeepUpdate path v w))\<lparr>store := store w\<rparr> = w"
proof -
  from assms obtain h doc where h: "db w = Some h"
    and doc: "docs (store w) (reportDocPath (appId w) rid) = Some doc" by auto
  note upd = update_accepted(1) [OF h assms(2,3,4) doc assms(6), of v]
  have ne: "split_on CHR ''.'' path \<noteq> []" by (rule split_on_nonempty)
  show ?thesis
    by (simp add: upd storedField_def doc get_set_same [OF ne] get_set_other)
qed

theorem deep_update_changes_only_addressed_field_witness:
  "storedField ''r1'' [''d2_problem'', ''where'']
      (snd (handleDeepUpdate ''d2_problem.where'' (JStr ''Line 3'') sampleWorkspace)) = Some (JStr ''Line 3'')
   \<and> storedField ''r1'' [''d2_problem'', ''what'']
      (snd (handleDeepUpdate ''d2_problem.where'' (JStr ''Line 3'') sampleWorkspace)) = Some (JStr [])
   \<and> storedField ''r1'' [''d1_team'']
      (snd (handleDeepUpdate ''d2_problem.where'' (JStr ''Line 3'') sampleWorkspace))
      = storedField ''r1'' [''d1_team''] sampleWorkspace"
proof -
  note t = deep_update_changes_only_addressed_field
    [of sampleWorkspace "''r1''" "''d2_problem.where''" "JStr ''Line 3''"]
  have "db sampleWorkspace \<noteq> None" "activeReportId sampleWorkspace = Some ''r1''" "''r1'' \<noteq> []"
    "accepting (store sampleWorkspace)"
    "docs (store sampleWorkspace) (reportDocPath (appId sampleWorkspace) ''r1'') \<noteq> None"
    "valid_field_path ''d2_problem.where''"
    by (simp_all add: sampleWorkspace_simps sampleStore_simps valid_where)
  from t [OF this] have
    a: "storedField ''r1'' (split_on CHR ''.'' ''d2_problem.where'')
          (snd (handleDeepUpdate ''d2_problem.where'' (JStr ''Line 3'') sampleWorkspace)) = Some (JStr ''Line 3'')"
    and b: "\<forall>q. \<not> prefix q (split_on CHR ''.'' ''d2_problem.where'')
            \<and> \<not> prefix (split_on CHR ''.'' ''d2_problem.where'') q \<longrightarrow>
            storedField ''r1'' q (snd (handleDeepUpdate ''d2_problem.where'' (JStr ''Line 3'') sampleWorkspace))
              = storedField ''r1'' q sampleWorkspace"
    by blast+
  have c: "storedField ''r1'' [''d2_problem'', ''what''] sampleWorkspace = Some (JStr [])"
    by (simp add: storedField_def sampleWorkspace_simps sampleStore_simps newReport_def)
  from b [rule_format, of "[''d2_problem'', ''what'']"] b [rule_format, of "[''d1_team'']"] a c
  show ?thesis by (simp add: split_where)
qed







subsection \<open>Deleting from the dashboard\<close>

text \<open>
  C7. For every report identifier and every state: the click on a card's delete button
  records the delete intent and opens the confirmation, and neither it, nor the delete
  operation, nor the confirmed delete changes the screen or the report selected for
  editing; the click does not reach the card's select handler.
\<close>

theorem delete_never_navigates:
  "view (clickDeleteButton rid w) = view w
   \<and> activeReportId (clickDeleteButton rid w) = activeReportId w
   \<and> clickDeleteButton rid w = w\<lparr>reportToDelete := Some rid, modalOpen := True\<rparr>
   \<and> view (snd (handleDeleteReport rid w)) = view w
   \<and> activeReportId (snd (handleDeleteReport rid w)) = activeReportId w
   \<and> view (confirmDelete (clickDeleteButton rid w)) = view w
   \<and> activeReportId (confirmDelete (clickDeleteButton rid w)) = activeReportId w"
  by (simp add: clickDeleteButton_def openDeleteModal_def handleDeleteReport_def confirmDelete_def
      deleteDoc_def Let_def split: option.splits)

theorem delete_never_navigates_witness:
  "view (confirmDelete (clickDeleteButton ''r1'' sampleDashboard)) = Dashboard
   \<and> activeReportId (confirmDelete (clickDeleteButton ''r1'' sampleDashboard)) = None"
proof -
  from delete_never_navigates [of "''r1''" sampleDashboard]
  have "view (confirmDelete (clickDeleteButton ''r1'' sampleDashboard)) = view sampleDashboard"
    and "activeReportId (confirmDelete (clickDeleteButton ''r1'' sampleDashboard))
           = activeReportId sampleDashboard"
    by blast+
  then show ?thesis by (simp add: sampleDashboard_simps)
qed

subsection \<open>Navigating between the disciplines\<close>

lemma select_accepted:
  assumes "db w = Some h" and "activeReportId w = Some rid" and "rid \<noteq> []"
    and "accepting (store w)" and "docs (store w) (reportDocPath (appId w) rid) = Some doc"
  shows "handleSelect d w =
           w\<lparr>activeDiscipline := JStr d,
             store := (store w)\<lparr>docs := (docs (store w))(reportDocPath (appId w) rid \<mapsto>
                AList.update ''currentDiscipline'' (JStr d) doc)\<rparr>\<rparr>"
  using assms
  by (simp add: handleSelect_def handleUpdate_def updateDoc_def valid_currentDiscipline)

lemma open_report_loaded:
  assumes "db w = Some h" and "rid \<noteq> []"
    and "docs (store w) (reportDocPath (appId w) rid) = Some doc"
  shows "activeDiscipline (openReport rid w) =
           (case map_of doc ''currentDiscipline'' of
              Some v \<Rightarrow> if truthy v then v else JStr ''D1''
            | None \<Rightarrow> JStr ''D1'')"
  using assms
  by (simp add: openReport_def handleSelectReport_def activeReportEffect_def mountWorkspace_def
      workspaceEffect_def read_opt_def map_of_spread_id split: option.splits)

lemma discipline_id_nonempty: "d \<in> set (map fst disciplines) \<Longrightarrow> d \<noteq> []"
  by (auto simp: disciplines_def)

text \<open>
  C3. Whatever discipline is active, selecting a discipline \<open>d\<close> makes \<open>d\<close> the active
  one. When the workspace has its storage handle and report identifier, the document
  exists and the store accepts the write, the selection also stores \<open>d\<close> as the document's
  \<open>currentDiscipline\<close>, and for \<open>d\<close> among \<open>D1\<close> to \<open>D8\<close>, leaving for the dashboard and
  opening the report again resumes at \<open>d\<close>. Opening a report whose stored
  \<open>currentDiscipline\<close> is set (to a truthy value, as each of \<open>D1\<close> to \<open>D8\<close> is) makes
  that value the active discipline; opening one without the field starts at \<open>D1\<close>.
\<close>

theorem select_discipline_persists_and_resumes:
  "activeDiscipline (handleSelect d w) = JStr d
   \<and> (db w \<noteq> None \<and> activeReportId w = Some rid \<and> rid \<noteq> [] \<and> accepting (store w)
        \<and> docs (store w) (reportDocPath (appId w) rid) \<noteq> None \<longrightarrow>
        storedField rid [''currentDiscipline''] (handleSelect d w) = Some (JStr d)
        \<and> (d \<in> set (map fst disciplines) \<longrightarrow>
             activeDiscipline (openReport rid (handleGoToDashboard (handleSelect d w))) = JStr d))
   \<and> (db w \<noteq> None \<and> rid \<noteq> [] \<and> docs (store w) (reportDocPath (appId w) rid) = Some doc \<longrightarrow>
        (\<forall>v. map_of doc ''currentDiscipline'' = Some v \<and> truthy v \<longrightarrow>
              activeDiscipline (openReport rid w) = v)
        \<and> (map_of doc ''currentDiscipline'' = None \<longrightarrow>
              activeDiscipline (openReport rid w) = JStr ''D1''))"
proof (intro conjI impI allI)
  show "activeDiscipline (handleSelect d w) = JStr d"
    by (simp add: handleSelect_def handleUpdate_def split: option.splits sum.splits)
next
  assume a: "db w \<noteq> None \<and> activeReportId w = Some rid \<and> rid \<noteq> [] \<and> accepting (store w)
        \<and> docs (store w) (reportDocPath (appId w) rid) \<noteq> None"
  then obtain h doc' where h: "db w = Some h"
    and doc': "docs (store w) (reportDocPath (appId w) rid) = Some doc'" by auto
  from a have sel: "handleSelect d w =
           w\<lparr>activeDiscipline := JStr d,
             store := (store w)\<lparr>docs := (docs (store w))(reportDocPath (appId w) rid \<mapsto>
                AList.update ''currentDiscipline'' (JStr d) doc')\<rparr>\<rparr>"
    using select_accepted [OF h _ _ _ doc'] by simp
  show "storedField rid [''currentDiscipline''] (handleSelect d w) = Some (JStr d)"
    by (simp add: sel storedField_def update_conv')
  assume d: "d \<in> set (map fst disciplines)"
  have "activeDiscipline (openReport rid (handleGoToDashboard (handleSelect d w))) =
          (case map_of (AList.update ''currentDiscipline'' (JStr d) doc') ''currentDiscipline'' of
              Some v \<Rightarrow> if truthy v then v else JStr ''D1''
            | None \<Rightarrow> JStr ''D1'')"
    using a by (intro open_report_loaded [where h = h])
      (simp_all add: sel handleGoToDashboard_def h)
  with discipline_id_nonempty [OF d]
  show "activeDiscipline (openReport rid (handleGoToDashboard (handleSelect d w))) = JStr d"
    by (simp add: update_conv')
next
  fix v
  assume a: "db w \<noteq> None \<and> rid \<noteq> [] \<and> docs (store w) (reportDocPath (appId w) rid) = Some doc"
    and v: "map_of doc ''currentDiscipline'' = Some v \<and> truthy v"
  from a obtain h where "db w = Some h" by auto
  from open_report_loaded [OF this] a v show "activeDiscipline (openReport rid w) = v"
    by simp
next
  assume a: "db w \<noteq> None \<and> rid \<noteq> [] \<and> docs (store w) (reportDocPath (appId w) rid) = Some doc"
    and v: "map_of doc ''currentDiscipline'' = None"
  from a obtain h where "db w = Some h" by auto
  from open_report_loaded [OF this] a v show "activeDiscipline (openReport rid w) = JStr ''D1''"
    by simp
qed

theorem select_discipline_persists_and_resumes_witness:
  "activeDiscipline (handleSelect ''D5'' sampleWorkspace) = JStr ''D5''
   \<and> storedField ''r1'' [''currentDiscipline''] (handleSelect ''D5'' sampleWorkspace) = Some (JStr ''D5'')
   \<and> activeDiscipline (openReport ''r1'' (handleGoToDashboard (handleSelect ''D5'' sampleWorkspace)))
       = JStr ''D5''
   \<and> activeDiscipline (openReport ''r0'' sampleLegacy) = JStr ''D1''"
proof -
  note t = select_discipline_persists_and_resumes
    [of "''D5''" sampleWorkspace "''r1''"
        "newReport (newReportTitle ''1/11/2026'') ''user0123'' (JTimestamp 0 0)"]
  have pre: "db sampleWorkspace \<noteq> None \<and> activeReportId sampleWorkspace = Some ''r1'' \<and> ''r1'' \<noteq> []
      \<and> accepting (store sampleWorkspace)
      \<and> docs (store sampleWorkspace) (reportDocPath (appId sampleWorkspace) ''r1'') \<noteq> None"
    by (simp add: sampleWorkspace_simps sampleStore_simps)
  have d5: "''D5'' \<in> set (map fst disciplines)"
    by (simp add: disciplines_def)
  from t pre d5 have
    "activeDiscipline (handleSelect ''D5'' sampleWorkspace) = JStr ''D5''"
    "storedField ''r1'' [''currentDiscipline''] (handleSelect ''D5'' sampleWorkspace) = Some (JStr ''D5'')"
    "activeDiscipline (openReport ''r1'' (handleGoToDashboard (handleSelect ''D5'' sampleWorkspace)))
       = JStr ''D5''"
    by blast+
  moreover
  note u = select_discipline_persists_and_resumes
    [of "''D1''" sampleLegacy "''r0''" "[(''title'', JStr ''legacy'')]"]
  have pre': "db sampleLegacy \<noteq> None \<and> ''r0'' \<noteq> []
      \<and> docs (store sampleLegacy) (reportDocPath (appId sampleLegacy) ''r0'')
          = Some [(''title'', JStr ''legacy'')]"
    by (simp add: sampleLegacy_def sampleDashboard_def)
  have cur: "map_of [(''title'', JStr ''legacy'')] ''currentDiscipline'' = None"
    by simp
  from u pre' cur have "activeDiscipline (openReport ''r0'' sampleLegacy) = JStr ''D1''"
    by blast
  ultimately show ?thesis by simp
qed

subsection \<open>Export\<close>

lemma bindE_Inr [simp]: "bindE (Inr x) f = f x"
  by (simp add: bindE_def)

lemma bindE_Inl [simp]: "bindE (Inl e) f = Inl e"
  by (simp add: bindE_def)

lemma textsAt_append [simp]: "textsAt x (cs @ ds) = textsAt x cs @ textsAt x ds"
  by (induction x cs rule: textsAt.induct) simp_all

lemma tablesWithHead_append [simp]:
  "tablesWithHead h (cs @ ds) = tablesWithHead h cs @ tablesWithHead h ds"
  by (induction h cs rule: tablesWithHead.induct) simp_all

lemma fst_call [simp]: "fst (call c p) = fst p @ [c]"
  by (simp add: call_def split: prod.splits)

lemma fst_docText [simp]: "fst (docText t x c p) = fst p @ [PdfText t x (snd p) c]"
  by (simp add: docText_def split: prod.splits)

lemma fst_advance [simp]: "fst (advance dy p) = fst p"
  by (simp add: advance_def split: prod.splits)

lemma fst_pageBreak [simp]: "fst (pageBreak p) = fst p @ (if snd p > 250 then [AddPage] else [])"
  by (simp add: pageBreak_def split: prod.splits)

lemma fst_autoTable [simp]: "fst (autoTable R h b p) = fst p @ [AutoTable (snd p) h b]"
  by (simp add: autoTable_def split: prod.splits)

lemma addSection_shows [simp]:
  "textsAt 16 (fst (addSection t p)) = textsAt 16 (fst p)"
  "tablesWithHead h (fst (addSection t p)) = tablesWithHead h (fst p)"
  by (simp_all add: addSection_def Let_def)

lemma whysLoop_tables [simp]:
  "tablesWithHead h (fst (whysLoop R i whys p)) = tablesWithHead h (fst p)"
  by (induction R i whys p rule: whysLoop.induct) (simp_all add: Let_def)

lemma whysLoop_texts:
  "textsAt 16 (fst (whysLoop R i whys p)) =
     textsAt 16 (fst p) @
     map (\<lambda>(j, why). Lines (splitTextToSize R (string_of_nat (j + 1) @ ''. '' @ toString why) 180))
       (enumerate i whys)"
  by (induction R i whys p rule: whysLoop.induct) (simp_all add: Let_def)

lemma mapE_all_Inr: "list_all (\<lambda>x. f x = Inr (g x)) xs \<Longrightarrow> mapE f xs = Inr (map g xs)"
  by (induction xs) simp_all

lemma mapE_succeeds: "list_all (\<lambda>x. \<exists>y. f x = Inr y) xs \<Longrightarrow> \<exists>ys. mapE f xs = Inr ys"
  by (induction xs) auto

lemma read_prop_member: "m \<noteq> JNull \<Longrightarrow> \<exists>r. read_prop (Some m) k = Inr r"
  by (cases m) simp_all

lemma row2_succeeds:
  "m \<noteq> JNull \<Longrightarrow>
   \<exists>y. bindE (read_prop (Some m) a) (\<lambda>x. bindE (read_prop (Some m) b) (\<lambda>y. Inr [x, y])) = Inr y"
  by (cases m) simp_all

lemma row3_succeeds:
  "m \<noteq> JNull \<Longrightarrow>
   \<exists>y. bindE (read_prop (Some m) a) (\<lambda>x. bindE (read_prop (Some m) b) (\<lambda>y.
          bindE (read_prop (Some m) c) (\<lambda>z. Inr [x, y, z]))) = Inr y"
  by (cases m) simp_all

lemma sectionD1_shows:
  assumes "map_of flds ''d1_team'' = Some (JArr ms)" and "list_all (\<lambda>m. m \<noteq> JNull) ms"
  shows "\<exists>p'. sectionD1 R (JObj flds) p = Inr p'
           \<and> textsAt 16 (fst p') = textsAt 16 (fst p)
           \<and> tablesWithHead fishboneHead (fst p') = tablesWithHead fishboneHead (fst p)"
proof -
  from assms(2) have "list_all (\<lambda>m. \<exists>y. bindE (read_prop (Some m) ''name'')
      (\<lambda>name. bindE (read_prop (Some m) ''role'') (\<lambda>role. Inr [name, role])) = Inr y) ms"
    by (simp add: list_all_iff row2_succeeds)
  from mapE_succeeds [OF this] obtain body where
    "mapE (\<lambda>m. bindE (read_prop (Some m) ''name'')
      (\<lambda>name. bindE (read_prop (Some m) ''role'') (\<lambda>role. Inr [name, role]))) ms = Inr body" ..
  with assms(1) show ?thesis
    by (simp add: sectionD1_def fishboneHead_def)
qed

lemma sectionD2_shows:
  assumes "map_of flds ''d2_problem'' = Some (JObj kvs)"
  shows "\<exists>p'. sectionD2 R (JObj flds) p = Inr p'
           \<and> textsAt 16 (fst p') = textsAt 16 (fst p)
           \<and> tablesWithHead fishboneHead (fst p') = tablesWithHead fishboneHead (fst p)"
  using assms by (simp add: sectionD2_def fishboneHead_def)

lemma sectionD3_shows:
  assumes "map_of flds ''d3_containment'' = Some (JArr as)" and "list_all (\<lambda>a. a \<noteq> JNull) as"
  shows "\<exists>p'. sectionD3 R (JObj flds) p = Inr p'
           \<and> textsAt 16 (fst p') = textsAt 16 (fst p)
           \<and> tablesWithHead fishboneHead (fst p') = tablesWithHead fishboneHead (fst p)"
proof -
  from assms(2) have "list_all (\<lambda>a. \<exists>y. bindE (read_prop (Some a) ''action'')
      (\<lambda>action. bindE (read_prop (Some a) ''responsible'') (\<lambda>responsible.
         bindE (read_prop (Some a) ''date'') (\<lambda>date. Inr [action, responsible, date]))) = Inr y) as"
    by (simp add: list_all_iff row3_succeeds)
  from mapE_succeeds [OF this] obtain body where
    "mapE (\<lambda>a. bindE (read_prop (Some a) ''action'')
      (\<lambda>action. bindE (read_prop (Some a) ''responsible'') (\<lambda>responsible.
         bindE (read_prop (Some a) ''date'') (\<lambda>date. Inr [action, responsible, date])))) as
     = Inr body" ..
  with assms(1) show ?thesis
    by (simp add: sectionD3_def fishboneHead_def)
qed

lemma fishbone_rows:
  assumes "list_all (\<lambda>kv. is_array (snd kv)) fb"
  shows "mapE (\<lambda>(category, causes). bindE (elements (Some causes)) (\<lambda>cs.
                    Inr [Some (JStr category), Some (JStr (array_join [CHR 0x0A] cs))])) fb
         = Inr (map (\<lambda>(category, causes).
                  [Some (JStr category),
                   Some (JStr (case causes of JArr cs \<Rightarrow> array_join [CHR 0x0A] cs | _ \<Rightarrow> []))]) fb)"
proof (rule mapE_all_Inr)
  from assms show "list_all (\<lambda>x. (case x of (category, causes) \<Rightarrow>
        bindE (elements (Some causes)) (\<lambda>cs.
           Inr [Some (JStr category), Some (JStr (array_join [CHR 0x0A] cs))])) =
      Inr (case x of (category, causes) \<Rightarrow>
             [Some (JStr category),
              Some (JStr (case causes of JArr cs \<Rightarrow> array_join [CHR 0x0A] cs | _ \<Rightarrow> []))])) fb"
    by (auto simp: list_all_iff is_array_def split: jval.splits)
qed

lemma sectionD4_shows:
  assumes "map_of flds ''d4_root_cause'' = Some (JObj d4)"
    and "map_of d4 ''five_whys'' = Some (JArr whys)"
    and "map_of d4 ''fishbone'' = Some (JObj fb)"
    and "list_all (\<lambda>kv. is_array (snd kv)) fb"
  shows "\<exists>p'. sectionD4 R (JObj flds) p = Inr p'
           \<and> textsAt 16 (fst p') = textsAt 16 (fst p) @
               map (\<lambda>(j, why). Lines (splitTextToSize R (string_of_nat (j + 1) @ ''. '' @ toString why) 180))
                 (enumerate 0 whys)
           \<and> tablesWithHead fishboneHead (fst p') = tablesWithHead fishboneHead (fst p) @
               [map (\<lambda>(category, causes).
                  [Some (JStr category),
                   Some (JStr (case causes of JArr cs \<Rightarrow> array_join [CHR 0x0A] cs | _ \<Rightarrow> []))]) fb]"
  using assms(1,2,3)
  by (simp add: sectionD4_def fishbone_rows [OF assms(4)] Let_def whysLoop_texts)

lemma array_of_Some [simp]: "(array_of v = Some xs) = (v = Some (JArr xs))"
  by (auto simp: array_of_def split: option.splits jval.splits)

lemma object_of_Some [simp]: "(object_of v = Some kvs) = (v = Some (JObj kvs))"
  by (auto simp: object_of_def split: option.splits jval.splits)

lemma array_of_eval [simp]: "array_of (Some (JArr xs)) = Some xs"
  by (simp add: array_of_def)

lemma object_of_eval [simp]: "object_of (Some (JObj kvs)) = Some kvs"
  by (simp add: object_of_def)

lemma generatePdf_shows:
  assumes "exportable (JObj flds)"
    and "map_of flds ''d4_root_cause'' = Some (JObj d4)"
    and "map_of d4 ''five_whys'' = Some (JArr whys)"
    and "map_of d4 ''fishbone'' = Some (JObj fb)"
  shows "\<exists>cs. generatePdf R (JObj flds) = Inr cs
           \<and> textsAt 16 cs =
               map (\<lambda>(j, why). Lines (splitTextToSize R (string_of_nat (j + 1) @ ''. '' @ toString why) 180))
                 (enumerate 0 whys)
           \<and> tablesWithHead fishboneHead cs =
               [map (\<lambda>(category, causes).
                  [Some (JStr category),
                   Some (JStr (case causes of JArr cs \<Rightarrow> array_join [CHR 0x0A] cs | _ \<Rightarrow> []))]) fb]"
proof -
  from assms obtain ms kvs as where
    d1: "map_of flds ''d1_team'' = Some (JArr ms)" "list_all (\<lambda>m. m \<noteq> JNull) ms"
    and d2: "map_of flds ''d2_problem'' = Some (JObj kvs)"
    and d3: "map_of flds ''d3_containment'' = Some (JArr as)" "list_all (\<lambda>a. a \<noteq> JNull) as"
    and fb: "list_all (\<lambda>kv. is_array (snd kv)) fb"
    by (auto simp: exportable_def split: option.splits)
  let ?p0 = "([SetFontSize 22, PdfText (Str (Some (JStr ''Informe 8D''))) 105 20 True,
                SetFontSize 16, PdfText (Str (map_of flds ''title'')) 105 30 True], 45 :: rat)"
  from sectionD1_shows [OF d1, of R ?p0] obtain p1 where
    p1: "sectionD1 R (JObj flds) ?p0 = Inr p1" "textsAt 16 (fst p1) = []"
      "tablesWithHead fishboneHead (fst p1) = []" by auto
  from sectionD2_shows [OF d2, of R p1] p1 obtain p2 where
    p2: "sectionD2 R (JObj flds) p1 = Inr p2" "textsAt 16 (fst p2) = []"
      "tablesWithHead fishboneHead (fst p2) = []" by auto
  from sectionD3_shows [OF d3, of R p2] p2 obtain p3 where
    p3: "sectionD3 R (JObj flds) p2 = Inr p3" "textsAt 16 (fst p3) = []"
      "tablesWithHead fishboneHead (fst p3) = []" by auto
  from sectionD4_shows [OF assms(2,3,4) fb, of R p3] p3 obtain p4 where
    p4: "sectionD4 R (JObj flds) p3 = Inr p4"
      "textsAt 16 (fst p4) =
         map (\<lambda>(j, why). Lines (splitTextToSize R (string_of_nat (j + 1) @ ''. '' @ toString why) 180))
           (enumerate 0 whys)"
      "tablesWithHead fishboneHead (fst p4) =
         [map (\<lambda>(category, causes).
            [Some (JStr category),
             Some (JStr (case causes of JArr cs \<Rightarrow> array_join [CHR 0x0A] cs | _ \<Rightarrow> []))]) fb]"
    by auto
  show ?thesis
    by (simp add: generatePdf_def p1 p2 p3 p4)
qed


lemma exportable_root_cause:
  assumes "exportable report"
  obtains flds d4 whys fb where "report = JObj flds"
    and "map_of flds ''d4_root_cause'' = Some (JObj d4)"
    and "map_of d4 ''five_whys'' = Some (JArr whys)"
    and "map_of d4 ''fishbone'' = Some (JObj fb)"
  using assms by (auto simp: exportable_def split: option.splits)




text \<open>
  C6, as amended. For every report that the export can read through and whose fishbone
  maps \<open>Machine\<close> to the sequence holding "worn bearing" and every other category to the
  empty sequence, with its keys in the order Manpower, Machine, Method, Material,
  Measurement, Environment, and for every renderer, the export completes and draws one
  fishbone table, of six rows in that order; the cause text of the \<open>Machine\<close> row is
  "worn bearing" and that of every other row is empty.
\<close>

theorem export_fishbone_rows_in_stored_order:
  assumes "exportable report"
    and "reportField [''d4_root_cause'', ''fishbone''] report =
           Some (JObj [(''Manpower'', JArr []), (''Machine'', JArr [JStr ''worn bearing'']),
                       (''Method'', JArr []), (''Material'', JArr []), (''Measurement'', JArr []),
                       (''Environment'', JArr [])])"
  shows "\<exists>cs. generatePdf R report = Inr cs
           \<and> tablesWithHead fishboneHead cs =
               [[[Some (JStr ''Manpower''), Some (JStr [])],
                 [Some (JStr ''Machine''), Some (JStr ''worn bearing'')],
                 [Some (JStr ''Method''), Some (JStr [])],
                 [Some (JStr ''Material''), Some (JStr [])],
                 [Some (JStr ''Measurement''), Some (JStr [])],
                 [Some (JStr ''Environment''), Some (JStr [])]]]"
proof -
  from assms(1) obtain flds d4 whys fb where r: "report = JObj flds"
    and d4: "map_of flds ''d4_root_cause'' = Some (JObj d4)"
    and whys: "map_of d4 ''five_whys'' = Some (JArr whys)"
    and fb: "map_of d4 ''fishbone'' = Some (JObj fb)"
    by (rule exportable_root_cause)
  from assms(2) r d4 fb have
    "fb = [(''Manpower'', JArr []), (''Machine'', JArr [JStr ''worn bearing'']),
           (''Method'', JArr []), (''Material'', JArr []), (''Measurement'', JArr []),
           (''Environment'', JArr [])]"
    by (simp add: reportField_def)
  with generatePdf_shows [OF assms(1) [unfolded r] d4 whys fb, of R] r show ?thesis
    by (auto simp: array_join_def)
qed

theorem export_fishbone_rows_in_stored_order_witness:
  "tablesWithHead fishboneHead (exportedCalls plainRenderer (sampleReport threeWhys wornBearing)) =
     [[[Some (JStr ''Manpower''), Some (JStr [])],
       [Some (JStr ''Machine''), Some (JStr ''worn bearing'')],
       [Some (JStr ''Method''), Some (JStr [])],
       [Some (JStr ''Material''), Some (JStr [])],
       [Some (JStr ''Measurement''), Some (JStr [])],
       [Some (JStr ''Environment''), Some (JStr [])]]]"
proof -
  have "exportable (sampleReport threeWhys wornBearing)"
    by (simp add: exportable_def sampleReport_def spread_def newReport_def threeWhys_def
        wornBearing_def is_array_def)
  moreover have "reportField [''d4_root_cause'', ''fishbone''] (sampleReport threeWhys wornBearing) =
      Some (JObj [(''Manpower'', JArr []), (''Machine'', JArr [JStr ''worn bearing'']),
                  (''Method'', JArr []), (''Material'', JArr []), (''Measurement'', JArr []),
                  (''Environment'', JArr [])])"
    by (simp add: reportField_def sampleReport_def spread_def newReport_def wornBearing_def)
  ultimately obtain cs where
    "generatePdf plainRenderer (sampleReport threeWhys wornBearing) = Inr cs"
    "tablesWithHead fishboneHead cs =
     [[[Some (JStr ''Manpower''), Some (JStr [])],
       [Some (JStr ''Machine''), Some (JStr ''worn bearing'')],
       [Some (JStr ''Method''), Some (JStr [])],
       [Some (JStr ''Material''), Some (JStr [])],
       [Some (JStr ''Measurement''), Some (JStr [])],
       [Some (JStr ''Environment''), Some (JStr [])]]]"
    using export_fishbone_rows_in_stored_order [of "sampleReport threeWhys wornBearing" plainRenderer]
    by blast
  then show ?thesis
    by (simp add: exportedCalls_def)
qed

text \<open>A report whose fishbone maps \<open>Machine\<close> to "worn bearing" and the five other
  categories to the empty sequence, with the keys in alphabetical order: the table's rows
  follow the keys, so the first row is \<open>Environment\<close> and not \<open>Manpower\<close>.\<close>

theorem export_fishbone_order_counterexample:
  "reportField [''d4_root_cause'', ''fishbone'', ''Machine''] (sampleReport threeWhys wornBearingSorted)
     = Some (JArr [JStr ''worn bearing''])
   \<and> reportField [''d4_root_cause'', ''fishbone'', ''Manpower''] (sampleReport threeWhys wornBearingSorted)
     = Some (JArr [])
   \<and> reportField [''d4_root_cause'', ''fishbone'', ''Method''] (sampleReport threeWhys wornBearingSorted)
     = Some (JArr [])
   \<and> reportField [''d4_root_cause'', ''fishbone'', ''Material''] (sampleReport threeWhys wornBearingSorted)
     = Some (JArr [])
   \<and> reportField [''d4_root_cause'', ''fishbone'', ''Measurement''] (sampleReport threeWhys wornBearingSorted)
     = Some (JArr [])
   \<and> reportField [''d4_root_cause'', ''fishbone'', ''Environment''] (sampleReport threeWhys wornBearingSorted)
     = Some (JArr [])
   \<and> tablesWithHead fishboneHead (exportedCalls plainRenderer (sampleReport threeWhys wornBearingSorted)) =
     [[[Some (JStr ''Environment''), Some (JStr [])],
       [Some (JStr ''Machine''), Some (JStr ''worn bearing'')],
       [Some (JStr ''Manpower''), Some (JStr [])],
       [Some (JStr ''Material''), Some (JStr [])],
       [Some (JStr ''Measurement''), Some (JStr [])],
       [Some (JStr ''Method''), Some (JStr [])]]]"
proof -
  have e: "exportable (sampleReport threeWhys wornBearingSorted)"
    by (simp add: exportable_def sampleReport_def spread_def newReport_def threeWhys_def
        wornBearingSorted_def is_array_def)
  have r: "sampleReport threeWhys wornBearingSorted =
      JObj (spread [(''id'', JStr ''r1'')]
             (set_field [''d4_root_cause'']
                (JObj [(''five_whys'', threeWhys), (''fishbone'', wornBearingSorted)])
                (newReport (newReportTitle ''1/11/2026'') ''user0123'' (JTimestamp 0 0))))"
    by (simp add: sampleReport_def)
  have "\<exists>cs. generatePdf plainRenderer (sampleReport threeWhys wornBearingSorted) = Inr cs
      \<and> tablesWithHead fishboneHead cs =
     [[[Some (JStr ''Environment''), Some (JStr [])],
       [Some (JStr ''Machine''), Some (JStr ''worn bearing'')],
       [Some (JStr ''Manpower''), Some (JStr [])],
       [Some (JStr ''Material''), Some (JStr [])],
       [Some (JStr ''Measurement''), Some (JStr [])],
       [Some (JStr ''Method''), Some (JStr [])]]]"
    unfolding r
    using generatePdf_shows [OF e [unfolded r],
        of "[(''five_whys'', threeWhys), (''fishbone'', wornBearingSorted)]"
           "[JStr ''no calibration'', JStr ''sensor drift'', JStr ''no maintenance schedule'']"
           "[(''Environment'', JArr []), (''Machine'', JArr [JStr ''worn bearing'']),
             (''Manpower'', JArr []), (''Material'', JArr []), (''Measurement'', JArr []),
             (''Method'', JArr [])]" plainRenderer]
    by (auto simp: spread_def newReport_def threeWhys_def wornBearingSorted_def array_join_def)
  then have "tablesWithHead fishboneHead
      (exportedCalls plainRenderer (sampleReport threeWhys wornBearingSorted)) =
     [[[Some (JStr ''Environment''), Some (JStr [])],
       [Some (JStr ''Machine''), Some (JStr ''worn bearing'')],
       [Some (JStr ''Manpower''), Some (JStr [])],
       [Some (JStr ''Material''), Some (JStr [])],
       [Some (JStr ''Measurement''), Some (JStr [])],
       [Some (JStr ''Method''), Some (JStr [])]]]"
    by (auto simp: exportedCalls_def)
  then show ?thesis
    by (simp add: reportField_def sampleReport_def spread_def newReport_def wornBearingSorted_def)
qed

end
